theory Spec2Isabelle
  imports Complex_Main
begin

section \<open>Rectangles of the host graphics library\<close>

text \<open>
  Every sprite of the game carries a \<open>pygame.Rect\<close>: four integers \<open>x\<close>, \<open>y\<close>, \<open>w\<close>, \<open>h\<close>.
  The attributes the game reads and writes are derived from them as the library does:
  \<open>left = x\<close>, \<open>top = y\<close>, \<open>right = x + w\<close>, \<open>bottom = y + h\<close>,
  \<open>centerx = x + w / 2\<close> and \<open>centery = y + h / 2\<close> (C division, rounding towards zero).
  Assigning to \<open>left\<close>, \<open>right\<close>, \<open>top\<close> or \<open>bottom\<close> moves the rectangle and keeps its size.
  Coordinates are modelled as unbounded integers.
\<close>

record Rect =
  rect_x :: int
  rect_y :: int
  rect_w :: int
  rect_h :: int

text \<open>Division by a positive integer that rounds towards zero, as C's \<open>/\<close> and Python's \<open>int(a / b)\<close> do.\<close>

definition trunc_div :: "int \<Rightarrow> int \<Rightarrow> int" where
  "trunc_div a b = (if 0 \<le> a then a div b else - ((- a) div b))"

definition rect_left :: "Rect \<Rightarrow> int" where
  "rect_left r = rect_x r"

definition rect_top :: "Rect \<Rightarrow> int" where
  "rect_top r = rect_y r"

definition rect_right :: "Rect \<Rightarrow> int" where
  "rect_right r = rect_x r + rect_w r"

definition rect_bottom :: "Rect \<Rightarrow> int" where
  "rect_bottom r = rect_y r + rect_h r"

definition rect_width :: "Rect \<Rightarrow> int" where
  "rect_width r = rect_w r"

definition rect_centerx :: "Rect \<Rightarrow> int" where
  "rect_centerx r = rect_x r + trunc_div (rect_w r) 2"

definition rect_centery :: "Rect \<Rightarrow> int" where
  "rect_centery r = rect_y r + trunc_div (rect_h r) 2"

definition set_rect_left :: "Rect \<Rightarrow> int \<Rightarrow> Rect" where
  "set_rect_left r v = r\<lparr>rect_x := v\<rparr>"

definition set_rect_right :: "Rect \<Rightarrow> int \<Rightarrow> Rect" where
  "set_rect_right r v = r\<lparr>rect_x := v - rect_w r\<rparr>"

definition set_rect_top :: "Rect \<Rightarrow> int \<Rightarrow> Rect" where
  "set_rect_top r v = r\<lparr>rect_y := v\<rparr>"

definition set_rect_bottom :: "Rect \<Rightarrow> int \<Rightarrow> Rect" where
  "set_rect_bottom r v = r\<lparr>rect_y := v - rect_h r\<rparr>"

text \<open>
  \<open>Rect.collidepoint(px, py)\<close>: the point lies inside the rectangle, the left and top
  edges included, the right and bottom edges excluded.
\<close>

definition collidepoint :: "Rect \<Rightarrow> int \<Rightarrow> int \<Rightarrow> bool" where
  "collidepoint r px py =
     (px \<ge> rect_x r \<and> px < rect_x r + rect_w r \<and> py \<ge> rect_y r \<and> py < rect_y r + rect_h r)"

text \<open>
  \<open>A.colliderect(B)\<close>: the two rectangles overlap in an area. A rectangle of width or height
  zero collides with nothing; edges that only touch do not collide.
\<close>

definition colliderect :: "Rect \<Rightarrow> Rect \<Rightarrow> bool" where
  "colliderect A B =
     (if rect_w A = 0 \<or> rect_h A = 0 \<or> rect_w B = 0 \<or> rect_h B = 0 then False
      else (min (rect_x A) (rect_x A + rect_w A) < max (rect_x B) (rect_x B + rect_w B) \<and>
            min (rect_y A) (rect_y A + rect_h A) < max (rect_y B) (rect_y B + rect_h B) \<and>
            max (rect_x A) (rect_x A + rect_w A) > min (rect_x B) (rect_x B + rect_w B) \<and>
            max (rect_y A) (rect_y A + rect_h A) > min (rect_y B) (rect_y B + rect_h B)))"


section \<open>Entities, blocks and the map\<close>

datatype Direction = LEFT | RIGHT

datatype EntityState = IDLE | WALKING | JUMPING | HANGING | CLIMBING

datatype EntityMessage = LAND_ON_SPIKE | RECEIVE_COIN

text \<open>
  \<open>entity.message(...)\<close> hands a message to the entity's sound, health and death components.
  The control component passes the string \<open>"JUMP"\<close>, the blocks pass members of
  \<open>EntityMessage\<close>. The model records the messages an entity has received, in order.
\<close>

datatype Message = Text string | Enum EntityMessage

datatype GameEvent = SWITCH_LEVEL

record Sprite =
  rect :: Rect

record Entity = Sprite +
  x_velocity :: int
  y_velocity :: int
  direction :: Direction
  state :: EntityState
  messages :: "Message list"

record Block = Sprite +
  is_spike :: bool

record MovingBlock = Block +
  vel :: int

record GameMap = Sprite +
  collideable_terrain_group :: "Block list"

definition message :: "Entity \<Rightarrow> Message \<Rightarrow> Entity" where
  "message e m = e\<lparr>messages := messages e @ [m]\<rparr>"

text \<open>
  \<open>pygame.sprite.spritecollide(sprite, group, False)\<close>: the sprites of the group whose
  rectangle collides with the sprite's rectangle at the time of the call, in the group's order.
\<close>

definition spritecollide :: "Rect \<Rightarrow> Block list \<Rightarrow> Block list" where
  "spritecollide r sprites = filter (\<lambda>s. colliderect r (rect s)) sprites"


section \<open>Block variants\<close>

subsection \<open>GatewayBlock\<close>

text \<open>
  \<open>GatewayBlock.update(player, terrain_group)\<close> posts \<open>SWITCH_LEVEL\<close> to the event queue when
  \<open>player.rect.collidepoint(self.rect.centerx, self.rect.centery)\<close>. The queue is passed in
  and returned.
\<close>

definition GatewayBlock_update :: "Block \<Rightarrow> Entity \<Rightarrow> GameEvent list \<Rightarrow> GameEvent list" where
  "GatewayBlock_update self player queue =
     (if collidepoint (rect player) (rect_centerx (rect self)) (rect_centery (rect self))
      then queue @ [SWITCH_LEVEL]
      else queue)"

subsection \<open>SpikeBlock\<close>

definition lateral_edge_inside :: "Rect \<Rightarrow> Rect \<Rightarrow> bool" where
  "lateral_edge_inside b p =
     ((rect_left b < rect_left p \<and> rect_left p < rect_right b) \<or>
      (rect_left b < rect_right p \<and> rect_right p < rect_right b))"

definition SpikeBlock_update :: "Block \<Rightarrow> Entity \<Rightarrow> Entity" where
  "SpikeBlock_update self player =
     (let p1 = (if colliderect (rect self) (rect player)
                then player\<lparr>rect := set_rect_bottom (rect player) (rect_top (rect self))\<rparr>
                else player)
      in if lateral_edge_inside (rect self) (rect p1) \<and> rect_top (rect self) = rect_bottom (rect p1)
         then message p1 (Enum LAND_ON_SPIKE)
         else p1)"

subsection \<open>MovingBlock\<close>

text \<open>The keys the game reads from \<open>pygame.key.get_pressed()\<close>.\<close>

record Keys =
  K_LEFT :: bool
  K_RIGHT :: bool
  K_UP :: bool
  K_DOWN :: bool
  K_SPACE :: bool

definition MovingBlock_update :: "Keys \<Rightarrow> MovingBlock \<Rightarrow> Entity \<Rightarrow> MovingBlock \<times> Entity" where
  "MovingBlock_update is_pressed self player =
     (if (rect_top (rect self) = rect_bottom (rect player) \<and>
          lateral_edge_inside (rect self) (rect player)) \<and>
         (state player \<noteq> HANGING \<and> state player \<noteq> CLIMBING)
      then
        (let (s1, p1) =
               (if direction player = LEFT
                then (let s = self\<lparr>rect := (rect self)\<lparr>rect_x := rect_x (rect self) - vel self\<rparr>\<rparr>
                      in (s, player\<lparr>rect := (rect player)\<lparr>rect_x := rect_x (rect s)\<rparr>\<rparr>))
                else (self, player));
             (s2, p2) =
               (if direction p1 = RIGHT
                then (let s = s1\<lparr>rect := (rect s1)\<lparr>rect_x := rect_x (rect s1) + vel s1\<rparr>\<rparr>
                      in (s, p1\<lparr>rect := (rect p1)\<lparr>rect_x := rect_x (rect s)\<rparr>\<rparr>))
                else (s1, p1))
         in if K_UP is_pressed
            then (let s = s2\<lparr>rect := (rect s2)\<lparr>rect_y := rect_y (rect s2) - vel s2\<rparr>\<rparr>
                  in (s, p2\<lparr>rect := set_rect_bottom (rect p2) (rect_top (rect s))\<rparr>))
            else if K_DOWN is_pressed
            then (let s = s2\<lparr>rect := (rect s2)\<lparr>rect_y := rect_y (rect s2) + vel s2\<rparr>\<rparr>
                  in (s, p2\<lparr>rect := set_rect_bottom (rect p2) (rect_top (rect s))\<rparr>))
            else (s2, p2))
      else (self, player))"


section \<open>The control component\<close>

definition ZERO_VELOCITY :: int where "ZERO_VELOCITY = 0"
definition WALK_LEFT_VELOCITY :: int where "WALK_LEFT_VELOCITY = - 180"
definition WALK_RIGHT_VELOCITY :: int where "WALK_RIGHT_VELOCITY = 180"
definition JUMP_VELOCITY :: int where "JUMP_VELOCITY = - 750"
definition CLIMB_UP_VELOCITY :: int where "CLIMB_UP_VELOCITY = - 120"
definition CLIMB_DOWN_VELOCITY :: int where "CLIMB_DOWN_VELOCITY = 180"

text \<open>
  Each handler is a sequence of independent \<open>if\<close> statements on the key snapshot, run in the
  order of the source; a later statement overwrites what an earlier one has set.
\<close>

definition handle_idle_entity :: "Keys \<Rightarrow> Entity \<Rightarrow> Entity" where
  "handle_idle_entity is_pressed entity =
     (let e0 = entity\<lparr>x_velocity := ZERO_VELOCITY\<rparr>;
          e1 = e0\<lparr>y_velocity := ZERO_VELOCITY\<rparr>;
          e2 = (if K_LEFT is_pressed
                then e1\<lparr>state := WALKING, direction := LEFT, x_velocity := WALK_LEFT_VELOCITY\<rparr>
                else e1);
          e3 = (if K_RIGHT is_pressed
                then e2\<lparr>state := WALKING, direction := RIGHT, x_velocity := WALK_RIGHT_VELOCITY\<rparr>
                else e2)
      in if K_SPACE is_pressed
         then message (e3\<lparr>state := JUMPING, y_velocity := JUMP_VELOCITY\<rparr>) (Text ''JUMP'')
         else e3)"

definition handle_walking_entity :: "Keys \<Rightarrow> Entity \<Rightarrow> Entity" where
  "handle_walking_entity is_pressed entity =
     (let e1 = (if K_LEFT is_pressed
                then entity\<lparr>direction := LEFT, x_velocity := WALK_LEFT_VELOCITY\<rparr>
                else entity);
          e2 = (if K_RIGHT is_pressed
                then e1\<lparr>direction := RIGHT, x_velocity := WALK_RIGHT_VELOCITY\<rparr>
                else e1);
          e3 = (if \<not> (K_LEFT is_pressed \<or> K_RIGHT is_pressed)
                then e2\<lparr>state := IDLE, x_velocity := ZERO_VELOCITY\<rparr>
                else e2)
      in if K_SPACE is_pressed
         then message (e3\<lparr>state := JUMPING, y_velocity := JUMP_VELOCITY\<rparr>) (Text ''JUMP'')
         else e3)"

definition handle_jumping_entity :: "Keys \<Rightarrow> Entity \<Rightarrow> Entity" where
  "handle_jumping_entity is_pressed entity =
     (let e1 = (if K_LEFT is_pressed
                then entity\<lparr>x_velocity := WALK_LEFT_VELOCITY, direction := LEFT\<rparr>
                else entity);
          e2 = (if K_RIGHT is_pressed
                then e1\<lparr>x_velocity := WALK_RIGHT_VELOCITY, direction := RIGHT\<rparr>
                else e1)
      in if \<not> (K_LEFT is_pressed \<or> K_RIGHT is_pressed)
         then e2\<lparr>x_velocity := ZERO_VELOCITY\<rparr>
         else e2)"

definition handle_hanging_entity :: "Keys \<Rightarrow> Entity \<Rightarrow> Entity" where
  "handle_hanging_entity is_pressed entity =
     (let e0 = entity\<lparr>x_velocity := ZERO_VELOCITY\<rparr>;
          e1 = e0\<lparr>y_velocity := ZERO_VELOCITY\<rparr>;
          e2 = (if K_UP is_pressed \<or> K_DOWN is_pressed then e1\<lparr>state := CLIMBING\<rparr> else e1);
          e3 = (if K_LEFT is_pressed then e2\<lparr>direction := RIGHT\<rparr> else e2);
          e4 = (if K_RIGHT is_pressed then e3\<lparr>direction := LEFT\<rparr> else e3)
      in if K_SPACE is_pressed
         then message (e4\<lparr>state := JUMPING, y_velocity := JUMP_VELOCITY\<rparr>) (Text ''JUMP'')
         else e4)"

definition handle_climbing_entity :: "Keys \<Rightarrow> Entity \<Rightarrow> Entity" where
  "handle_climbing_entity is_pressed entity =
     (let e1 = (if K_UP is_pressed then entity\<lparr>y_velocity := CLIMB_UP_VELOCITY\<rparr> else entity);
          e2 = (if K_DOWN is_pressed then e1\<lparr>y_velocity := CLIMB_DOWN_VELOCITY\<rparr> else e1)
      in if \<not> (K_UP is_pressed \<or> K_DOWN is_pressed)
         then e2\<lparr>state := HANGING\<rparr>
         else e2)"

text \<open>
  \<open>UserControlComponent.update\<close>: an \<open>if\<close>/\<open>elif\<close> chain over the first four states, then
  a separate test for \<open>CLIMBING\<close> on the state the chain has left.
\<close>

definition UserControlComponent_update :: "Keys \<Rightarrow> Entity \<Rightarrow> Entity" where
  "UserControlComponent_update is_pressed entity =
     (let e1 = (case state entity of
                  IDLE \<Rightarrow> handle_idle_entity is_pressed entity
                | WALKING \<Rightarrow> handle_walking_entity is_pressed entity
                | JUMPING \<Rightarrow> handle_jumping_entity is_pressed entity
                | HANGING \<Rightarrow> handle_hanging_entity is_pressed entity
                | CLIMBING \<Rightarrow> entity)
      in if state e1 = CLIMBING then handle_climbing_entity is_pressed e1 else e1)"


section \<open>The physics component\<close>

definition is_colliding_from_below :: "Entity \<Rightarrow> Block \<Rightarrow> bool" where
  "is_colliding_from_below entity colliding_sprite =
     (rect_top (rect colliding_sprite) < rect_top (rect entity) \<and>
      rect_top (rect entity) < rect_bottom (rect colliding_sprite))"

definition is_colliding_from_above :: "Entity \<Rightarrow> Block \<Rightarrow> bool" where
  "is_colliding_from_above entity colliding_sprite =
     (rect_top (rect colliding_sprite) < rect_bottom (rect entity) \<and>
      rect_bottom (rect entity) < rect_bottom (rect colliding_sprite))"

definition is_colliding_from_right :: "Entity \<Rightarrow> Block \<Rightarrow> bool" where
  "is_colliding_from_right entity colliding_sprite =
     (rect_left (rect colliding_sprite) < rect_left (rect entity) \<and>
      rect_left (rect entity) < rect_right (rect colliding_sprite))"

definition is_colliding_from_left :: "Entity \<Rightarrow> Block \<Rightarrow> bool" where
  "is_colliding_from_left entity colliding_sprite =
     (rect_left (rect colliding_sprite) < rect_right (rect entity) \<and>
      rect_right (rect entity) < rect_right (rect colliding_sprite))"

subsection \<open>Vertical collisions\<close>

text \<open>
  The loop of \<open>handle_y_collisions\<close> over the colliding sprites. Its state is the entity and
  the local flag \<open>isJumping\<close>; every test reads the entity as the earlier iterations left it.
\<close>

fun handle_y_collisions_loop :: "Entity \<Rightarrow> bool \<Rightarrow> Block list \<Rightarrow> Entity \<times> bool" where
  "handle_y_collisions_loop entity isJumping [] = (entity, isJumping)"
| "handle_y_collisions_loop entity isJumping (colliding_sprite # rest) =
     (let e1 = (if is_colliding_from_below entity colliding_sprite
                then entity\<lparr>rect := set_rect_top (rect entity) (rect_bottom (rect colliding_sprite)),
                            y_velocity := 0\<rparr>
                else entity)
      in if is_colliding_from_above e1 colliding_sprite
         then (let e2 = (if state e1 = JUMPING then e1\<lparr>state := IDLE\<rparr> else e1);
                   e3 = e2\<lparr>rect := set_rect_bottom (rect e2) (rect_top (rect colliding_sprite)),
                           y_velocity := 0\<rparr>
               in handle_y_collisions_loop e3 False rest)
         else handle_y_collisions_loop e1 isJumping rest)"

definition handle_y_collisions :: "Entity \<Rightarrow> GameMap \<Rightarrow> Entity" where
  "handle_y_collisions entity game_map =
     (let colliding_sprites = spritecollide (rect entity) (collideable_terrain_group game_map);
          (e1, isJumping) = handle_y_collisions_loop entity True colliding_sprites
      in if state e1 \<noteq> CLIMBING \<and> state e1 \<noteq> HANGING
         then (if isJumping then e1\<lparr>state := JUMPING\<rparr> else e1)
         else e1)"

text \<open>
  Whether a pass of \<open>handle_y_collisions\<close> on this entity meets a landing contact: some
  iteration finds \<open>is_colliding_from_above\<close> and clears \<open>isJumping\<close>.
\<close>

definition landing_contact :: "Entity \<Rightarrow> GameMap \<Rightarrow> bool" where
  "landing_contact entity game_map =
     (\<not> snd (handle_y_collisions_loop entity True
               (spritecollide (rect entity) (collideable_terrain_group game_map))))"

subsection \<open>Horizontal collisions\<close>

fun PhysicsComponent_handle_x_loop :: "Entity \<Rightarrow> Block list \<Rightarrow> Entity" where
  "PhysicsComponent_handle_x_loop entity [] = entity"
| "PhysicsComponent_handle_x_loop entity (colliding_sprite # rest) =
     (if \<not> is_spike colliding_sprite
      then (let e1 = (if is_colliding_from_right entity colliding_sprite
                      then entity\<lparr>rect := set_rect_left (rect entity) (rect_right (rect colliding_sprite))\<rparr>
                      else entity);
                e2 = (if is_colliding_from_left e1 colliding_sprite
                      then e1\<lparr>rect := set_rect_right (rect e1) (rect_left (rect colliding_sprite))\<rparr>
                      else e1)
            in PhysicsComponent_handle_x_loop e2 rest)
      else PhysicsComponent_handle_x_loop entity rest)"

definition PhysicsComponent_handle_x_collisions :: "Entity \<Rightarrow> GameMap \<Rightarrow> Entity" where
  "PhysicsComponent_handle_x_collisions entity game_map =
     PhysicsComponent_handle_x_loop entity
       (spritecollide (rect entity) (collideable_terrain_group game_map))"

fun EnemyPhysicsComponent_handle_x_loop :: "Entity \<Rightarrow> Block list \<Rightarrow> Entity" where
  "EnemyPhysicsComponent_handle_x_loop enemy [] = enemy"
| "EnemyPhysicsComponent_handle_x_loop enemy (colliding_sprite # rest) =
     (let e1 = (if is_colliding_from_right enemy colliding_sprite
                then enemy\<lparr>rect := set_rect_left (rect enemy) (rect_right (rect colliding_sprite)),
                           direction := RIGHT\<rparr>
                else enemy);
          e2 = (if is_colliding_from_left e1 colliding_sprite
                then e1\<lparr>rect := set_rect_right (rect e1) (rect_left (rect colliding_sprite)),
                        direction := LEFT\<rparr>
                else e1);
          e3 = e2\<lparr>x_velocity := - x_velocity e2\<rparr>
      in EnemyPhysicsComponent_handle_x_loop e3 rest)"

definition EnemyPhysicsComponent_handle_x_collisions :: "Entity \<Rightarrow> GameMap \<Rightarrow> Entity" where
  "EnemyPhysicsComponent_handle_x_collisions enemy game_map =
     EnemyPhysicsComponent_handle_x_loop enemy
       (spritecollide (rect enemy) (collideable_terrain_group game_map))"

text \<open>
  \<open>EnemyPhysicsComponent\<close> inherits \<open>update\<close>, \<open>handle_y_collisions\<close> and
  \<open>handle_map_boundary_collisions\<close> and overrides \<open>handle_x_collisions\<close>; the call
  \<open>self.handle_x_collisions\<close> in \<open>update\<close> goes to the class of the component.
\<close>

datatype Component = PhysicsComponent | EnemyPhysicsComponent

definition handle_x_collisions :: "Component \<Rightarrow> Entity \<Rightarrow> GameMap \<Rightarrow> Entity" where
  "handle_x_collisions self entity game_map =
     (case self of
        PhysicsComponent \<Rightarrow> PhysicsComponent_handle_x_collisions entity game_map
      | EnemyPhysicsComponent \<Rightarrow> EnemyPhysicsComponent_handle_x_collisions entity game_map)"

subsection \<open>Map boundaries\<close>

definition handle_map_boundary_collisions :: "Entity \<Rightarrow> GameMap \<Rightarrow> Entity" where
  "handle_map_boundary_collisions entity game_map =
     (let map_width = rect_width (rect game_map);
          e1 = (if rect_top (rect entity) < 0
                then entity\<lparr>rect := set_rect_top (rect entity) 0\<rparr>
                else entity)
      in if rect_left (rect e1) < 0
         then e1\<lparr>rect := set_rect_left (rect e1) 0\<rparr>
         else if rect_right (rect e1) > map_width
         then e1\<lparr>rect := set_rect_right (rect e1) map_width\<rparr>
         else e1)"

subsection \<open>The update of one frame\<close>

text \<open>
  \<open>update(delta_time, entity, game_map)\<close> uses \<open>delta_time\<close>, a double, only through five
  expressions that it converts to integers at once:
  \<^item> \<open>num_full_steps = int(delta_time / DISCRETE_TIMESTEP)\<close>, the number of loop iterations;
  \<^item> \<open>int(GRAVITY * DISCRETE_TIMESTEP * 60)\<close>, the gravity of a full step;
  \<^item> \<open>int(v * DISCRETE_TIMESTEP)\<close>, the displacement of a full step at velocity \<open>v\<close>;
  \<^item> \<open>int(GRAVITY * remainder_time * 60)\<close>, the gravity of the remainder step;
  \<^item> \<open>int(v * remainder_time)\<close>, the displacement of the remainder step at velocity \<open>v\<close>.

  The model takes these five integer-valued quantities as a record, so that every statement
  proved for all such records holds whatever the double arithmetic yields for a given
  \<open>delta_time\<close>. Everything after the conversion is integer arithmetic and is modelled as
  written.
\<close>

record Timing =
  num_full_steps :: nat
  full_gravity :: int
  full_move :: "int \<Rightarrow> int"
  remainder_gravity :: int
  remainder_move :: "int \<Rightarrow> int"

text \<open>The first two statements of a loop iteration: gravity, then the vertical move.\<close>

definition full_step_fall :: "Timing \<Rightarrow> Entity \<Rightarrow> Entity" where
  "full_step_fall t entity =
     (let e1 = (if state entity \<noteq> CLIMBING \<and> state entity \<noteq> HANGING
                then entity\<lparr>y_velocity := y_velocity entity + full_gravity t\<rparr>
                else entity)
      in e1\<lparr>rect := (rect e1)\<lparr>rect_y := rect_y (rect e1) + full_move t (y_velocity e1)\<rparr>\<rparr>)"

text \<open>One iteration of the loop over the full steps.\<close>

definition full_step :: "Component \<Rightarrow> Timing \<Rightarrow> GameMap \<Rightarrow> Entity \<Rightarrow> Entity" where
  "full_step self t game_map entity =
     (let e2 = full_step_fall t entity;
          e3 = handle_y_collisions e2 game_map;
          e4 = e3\<lparr>rect := (rect e3)\<lparr>rect_x := rect_x (rect e3) + full_move t (x_velocity e3)\<rparr>\<rparr>
      in handle_x_collisions self e4 game_map)"

primrec full_steps :: "Component \<Rightarrow> Timing \<Rightarrow> GameMap \<Rightarrow> nat \<Rightarrow> Entity \<Rightarrow> Entity" where
  "full_steps self t game_map 0 entity = entity"
| "full_steps self t game_map (Suc n) entity =
     full_steps self t game_map n (full_step self t game_map entity)"

text \<open>The first two statements of the remainder step.\<close>

definition remainder_step_fall :: "Timing \<Rightarrow> Entity \<Rightarrow> Entity" where
  "remainder_step_fall t entity =
     (let e1 = (if state entity \<noteq> CLIMBING \<and> state entity \<noteq> HANGING
                then entity\<lparr>y_velocity := y_velocity entity + remainder_gravity t\<rparr>
                else entity)
      in e1\<lparr>rect := (rect e1)\<lparr>rect_y := rect_y (rect e1) + remainder_move t (y_velocity e1)\<rparr>\<rparr>)"

definition PhysicsComponent_update :: "Component \<Rightarrow> Timing \<Rightarrow> Entity \<Rightarrow> GameMap \<Rightarrow> Entity" where
  "PhysicsComponent_update self t entity game_map =
     (let e0 = full_steps self t game_map (num_full_steps t) entity;
          e2 = remainder_step_fall t e0;
          e3 = (if remainder_move t (y_velocity e2) \<noteq> 0
                then handle_y_collisions e2 game_map
                else e2);
          e4 = e3\<lparr>rect := (rect e3)\<lparr>rect_x := rect_x (rect e3) + remainder_move t (x_velocity e3)\<rparr>\<rparr>;
          e5 = handle_x_collisions self e4 game_map
      in handle_map_boundary_collisions e5 game_map)"

text \<open>
  The entities on which one call of \<open>update\<close> runs \<open>handle_y_collisions\<close>, in order: one per
  full step and, when the remainder step moves the entity vertically, one more.
\<close>

primrec full_steps_y_passes :: "Component \<Rightarrow> Timing \<Rightarrow> GameMap \<Rightarrow> nat \<Rightarrow> Entity \<Rightarrow> Entity list" where
  "full_steps_y_passes self t game_map 0 entity = []"
| "full_steps_y_passes self t game_map (Suc n) entity =
     full_step_fall t entity #
     full_steps_y_passes self t game_map n (full_step self t game_map entity)"

definition update_y_passes :: "Component \<Rightarrow> Timing \<Rightarrow> Entity \<Rightarrow> GameMap \<Rightarrow> Entity list" where
  "update_y_passes self t entity game_map =
     (let e0 = full_steps self t game_map (num_full_steps t) entity;
          e2 = remainder_step_fall t e0
      in full_steps_y_passes self t game_map (num_full_steps t) entity @
         (if remainder_move t (y_velocity e2) \<noteq> 0 then [e2] else []))"

text \<open>
  Two frames whose five quantities are not in doubt. For \<open>delta_time = 0.0\<close> the quotient and
  the remainder are \<open>0.0\<close>: no full step, and a remainder step without gravity or movement.
  For \<open>delta_time = 1 / 60\<close>, the double \<open>DISCRETE_TIMESTEP\<close> itself, the quotient is \<open>1.0\<close>
  and the remainder \<open>0.0\<close>: one full step, and a remainder step without gravity or movement.
  In a full step \<open>GRAVITY * DISCRETE_TIMESTEP * 60\<close> is \<open>60.0\<close>, and \<open>int(v * DISCRETE_TIMESTEP)\<close>
  is \<open>v / 60\<close> rounded towards zero for every velocity \<open>v\<close> of magnitude below \<open>2^46\<close>.
\<close>

definition frame_of_zero_seconds :: Timing where
  "frame_of_zero_seconds =
     \<lparr>num_full_steps = 0, full_gravity = 60, full_move = (\<lambda>v. trunc_div v 60),
      remainder_gravity = 0, remainder_move = (\<lambda>v. 0)\<rparr>"

definition frame_of_one_step :: Timing where
  "frame_of_one_step =
     \<lparr>num_full_steps = 1, full_gravity = 60, full_move = (\<lambda>v. trunc_div v 60),
      remainder_gravity = 0, remainder_move = (\<lambda>v. 0)\<rparr>"


section \<open>The texture set\<close>

text \<open>
  A \<open>TerrainType\<close> stores a texture and its hitbox, in units of a block. The texture is a
  \<open>pygame.Surface\<close> cut out of a sprite sheet; the model names the sheet and the rectangle
  it is cut from. The hitbox numbers are the decimal literals of the source, kept as rationals.
\<close>

datatype Surface = Surface string "int \<times> int \<times> int \<times> int"

record TerrainType =
  image :: Surface
  block_pos_x :: rat
  block_pos_y :: rat
  block_width :: rat
  block_height :: rat

definition TerrainType_init :: "Surface \<Rightarrow> rat \<Rightarrow> rat \<Rightarrow> rat \<Rightarrow> rat \<Rightarrow> TerrainType" where
  "TerrainType_init img px py bw bh =
     \<lparr>image = img, block_pos_x = px, block_pos_y = py, block_width = bw, block_height = bh\<rparr>"

text \<open>The constructor's default arguments: position 0, 0 and size 1, 1.\<close>

definition TerrainType_default :: "Surface \<Rightarrow> TerrainType" where
  "TerrainType_default img = TerrainType_init img 0 0 1 1"

definition ruby :: string where
  "ruby = ''assets/textures/environment/animated/ruby.png''"

definition tileset :: string where
  "tileset = ''assets/textures/environment/static/terrain.png''"

definition decorations :: string where
  "decorations = ''assets/textures/environment/static/decorations.png''"

definition get_image_at :: "string \<Rightarrow> int \<times> int \<times> int \<times> int \<Rightarrow> Surface" where
  "get_image_at sheet rectangle = Surface sheet rectangle"

text \<open>
  The two dictionaries of \<open>TextureSet\<close>, as association lists in the order of the source.
  No key occurs twice in either, so that the first entry found is the entry of the dictionary.
\<close>

definition textures :: "(string \<times> TerrainType) list" where
  "textures =
    [(''SPIKES_UPRIGHT'', TerrainType_init (get_image_at decorations (208, 196, 32, 10)) 0 (7 / 10) 1 (3 / 10)),
     (''ENTRANCE/EXIT'', TerrainType_init (get_image_at tileset (1584, 464, 32, 28)) 0 (- (1 / 2)) 1 (3 / 2)),
     (''COIN'', TerrainType_init (get_image_at ruby (0, 0, 15, 16)) (1 / 5) (1 / 5) (3 / 5) (3 / 5)),
     (''FALLING_BLOCK'', TerrainType_default (get_image_at tileset (208, 672, 32, 32))),
     (''MOVING_BLOCK'', TerrainType_default (get_image_at tileset (1424, 656, 32, 32))),
     (''LADDER'', TerrainType_default (get_image_at decorations (184, 16, 32, 32))),
     (''PUSHABLE'', TerrainType_default (get_image_at decorations (209, 113, 14, 15))),
     (''CORNER_BOTTOM_LEFT'', TerrainType_default (get_image_at tileset (160, 720, 32, 32))),
     (''CORNER_BOTTOM_RIGHT'', TerrainType_default (get_image_at tileset (512, 720, 32, 32))),
     (''CORNER_TOP_LEFT_1'', TerrainType_default (get_image_at tileset (160, 448, 32, 32))),
     (''CORNER_TOP_LEFT_2'', TerrainType_default (get_image_at tileset (192, 448, 32, 32))),
     (''CORNER_TOP_LEFT_3'', TerrainType_default (get_image_at tileset (160, 480, 32, 32))),
     (''CORNER_TOP_LEFT_4'', TerrainType_default (get_image_at tileset (192, 480, 32, 32))),
     (''CORNER_TOP_RIGHT_1'', TerrainType_default (get_image_at tileset (480, 448, 32, 32))),
     (''CORNER_TOP_RIGHT_2'', TerrainType_default (get_image_at tileset (512, 448, 32, 32))),
     (''CORNER_TOP_RIGHT_3'', TerrainType_default (get_image_at tileset (480, 480, 32, 32))),
     (''CORNER_TOP_RIGHT_4'', TerrainType_default (get_image_at tileset (512, 480, 32, 32))),
     (''WALL_LEFT'', TerrainType_default (get_image_at tileset (160, 672, 32, 32))),
     (''WALL_RIGHT'', TerrainType_default (get_image_at tileset (512, 672, 32, 32))),
     (''CEILING'', TerrainType_default (get_image_at tileset (240, 448, 32, 32))),
     (''FLOOR'', TerrainType_default (get_image_at tileset (240, 720, 32, 32))),
     (''FLOOR_TOP_HALF'', TerrainType_init (get_image_at tileset (240, 720, 32, 16)) 0 (12 / 25) 1 (13 / 25)),
     (''BG_FILLER'', TerrainType_default (get_image_at tileset (48, 544, 32, 32))),
     (''BG_WALL'', TerrainType_default (get_image_at tileset (1328, 472, 32, 32))),
     (''BG_WALL_BOTTOM_HALF'', TerrainType_init (get_image_at tileset (1328, 488, 32, 16)) 0 (12 / 25) 1 (13 / 25)),
     (''BG_WINDOW_DOUBLE'', TerrainType_init (get_image_at tileset (1088, 240, 144, 128)) 0 0 (9 / 2) 4),
     (''BG_WINDOW_SINGLE'', TerrainType_init (get_image_at tileset (1472, 96, 65, 64)) (- (1 / 2)) (- (13 / 32)) 2 2),
     (''BG_WINDOW_BARRED'', TerrainType_init (get_image_at tileset (1552, 119, 32, 42)) 0 (- (9 / 32)) 1 (41 / 32)),
     (''BG_SHELF_POTIONS'', TerrainType_init (get_image_at decorations (16, 64, 32, 64)) 0 (- 1) 1 2),
     (''BG_SHELF_BOOKS'', TerrainType_init (get_image_at decorations (16, 144, 32, 64)) 0 (- 1) 1 2),
     (''BG_SHELF_EMPTY'', TerrainType_init (get_image_at decorations (64, 144, 32, 64)) 0 (- 1) 1 2),
     (''BG_BANNER_RED_LARGE_1'', TerrainType_init (get_image_at decorations (304, 305, 112, 80)) (- (1 / 4)) 0 (7 / 2) (5 / 2)),
     (''BG_BANNER_RED_LARGE_2'', TerrainType_init (get_image_at decorations (496, 209, 112, 80)) (- (1 / 4)) 0 (7 / 2) (5 / 2))]"

definition code_to_texture_dictionary :: "(string \<times> string) list" where
  "code_to_texture_dictionary =
    [(''SP'', ''SPIKES_UPRIGHT''),
     (''GW'', ''ENTRANCE/EXIT''),
     (''CN'', ''COIN''),
     (''FB'', ''FALLING_BLOCK''),
     (''MB'', ''MOVING_BLOCK''),
     (''LB'', ''LADDER''),
     (''PB'', ''PUSHABLE''),
     (''f1'', ''FLOOR''),
     (''f2'', ''FLOOR_TOP_HALF''),
     (''l1'', ''WALL_LEFT''),
     (''r1'', ''WALL_RIGHT''),
     (''c1'', ''CEILING''),
     (''bl'', ''CORNER_BOTTOM_LEFT''),
     (''br'', ''CORNER_BOTTOM_RIGHT''),
     (''k1'', ''CORNER_TOP_LEFT_1''),
     (''k2'', ''CORNER_TOP_LEFT_2''),
     (''k3'', ''CORNER_TOP_LEFT_3''),
     (''k4'', ''CORNER_TOP_LEFT_4''),
     (''k5'', ''CORNER_TOP_RIGHT_1''),
     (''k6'', ''CORNER_TOP_RIGHT_2''),
     (''k7'', ''CORNER_TOP_RIGHT_3''),
     (''k8'', ''CORNER_TOP_RIGHT_4''),
     (''xx'', ''BG_FILLER''),
     (''wl'', ''BG_WALL''),
     (''wb'', ''BG_WALL_BOTTOM_HALF''),
     (''2w'', ''BG_WINDOW_DOUBLE''),
     (''1w'', ''BG_WINDOW_SINGLE''),
     (''bw'', ''BG_WINDOW_BARRED''),
     (''s1'', ''BG_SHELF_POTIONS''),
     (''s2'', ''BG_SHELF_BOOKS''),
     (''s3'', ''BG_SHELF_EMPTY''),
     (''b1'', ''BG_BANNER_RED_LARGE_1''),
     (''b2'', ''BG_BANNER_RED_LARGE_2'')]"

datatype py_error = KeyError string

text \<open>
  \<open>get_texture_from_code(code)\<close> is \<open>self.textures[self.code_to_texture_dictionary[code]]\<close>:
  either subscript raises \<open>KeyError\<close> on a key that is missing.
\<close>

definition get_texture_from_code :: "string \<Rightarrow> py_error + TerrainType" where
  "get_texture_from_code code =
     (case map_of code_to_texture_dictionary code of
        None \<Rightarrow> Inl (KeyError code)
      | Some name \<Rightarrow>
          (case map_of textures name of
             None \<Rightarrow> Inl (KeyError name)
           | Some terrain_type \<Rightarrow> Inr terrain_type))"


section \<open>Concrete sprites, maps and key snapshots\<close>

text \<open>
  \<open>Player.__init__\<close>: a rectangle of 20 by 30 pixels at the starting position, at rest,
  facing right, \<open>IDLE\<close>. \<open>Enemy.__init__\<close> takes the size of its rectangle from the
  \<open>blit_rect\<close> of its type, 32 by 32 for \<open>PinkGuy\<close>.
\<close>

definition Player_init :: "int \<times> int \<Rightarrow> Entity" where
  "Player_init starting_position =
     \<lparr>rect = \<lparr>rect_x = fst starting_position, rect_y = snd starting_position,
               rect_w = 20, rect_h = 30\<rparr>,
      x_velocity = 0, y_velocity = 0, direction = RIGHT, state = IDLE, messages = []\<rparr>"

definition Enemy_init :: "int \<times> int \<Rightarrow> int \<times> int \<Rightarrow> Entity" where
  "Enemy_init blit_size starting_position =
     \<lparr>rect = \<lparr>rect_x = fst starting_position, rect_y = snd starting_position,
               rect_w = fst blit_size, rect_h = snd blit_size\<rparr>,
      x_velocity = 0, y_velocity = 0, direction = RIGHT, state = IDLE, messages = []\<rparr>"

definition PinkGuy_size :: "int \<times> int" where
  "PinkGuy_size = (32, 32)"

text \<open>A block given by its hitbox, and a map given by its width and its collideable blocks.\<close>

definition block_with_rect :: "int \<Rightarrow> int \<Rightarrow> int \<Rightarrow> int \<Rightarrow> bool \<Rightarrow> Block" where
  "block_with_rect bx by bw bh spike =
     \<lparr>rect = \<lparr>rect_x = bx, rect_y = by, rect_w = bw, rect_h = bh\<rparr>, is_spike = spike\<rparr>"

definition map_with :: "int \<Rightarrow> Block list \<Rightarrow> GameMap" where
  "map_with map_width blocks =
     \<lparr>rect = \<lparr>rect_x = 0, rect_y = 0, rect_w = map_width, rect_h = 600\<rparr>,
      collideable_terrain_group = blocks\<rparr>"

text \<open>
  Tiles are 25 pixels wide. A gateway tile placed at (100, 100) has the hitbox
  (100, 88, 25, 37); a spike tile placed at (100, 100) has the hitbox (100, 117, 25, 7); a
  \<open>FLOOR_TOP_HALF\<close> tile placed at (0, 25) has the hitbox (0, 37, 25, 13); a full tile has a
  hitbox of 25 by 25.
\<close>

definition gateway_block :: Block where
  "gateway_block = block_with_rect 100 88 25 37 False"

definition spike_block :: Block where
  "spike_block = block_with_rect 100 117 25 7 True"

definition half_floor_block :: Block where
  "half_floor_block = block_with_rect 0 37 25 13 False"

definition moving_block :: MovingBlock where
  "moving_block =
     \<lparr>rect = \<lparr>rect_x = 0, rect_y = 100, rect_w = 25, rect_h = 25\<rparr>, is_spike = False, vel = 1\<rparr>"

definition keys_none :: Keys where
  "keys_none = \<lparr>K_LEFT = False, K_RIGHT = False, K_UP = False, K_DOWN = False, K_SPACE = False\<rparr>"

definition keys_up :: Keys where
  "keys_up = keys_none\<lparr>K_UP := True\<rparr>"

definition keys_left_right :: Keys where
  "keys_left_right = keys_none\<lparr>K_LEFT := True, K_RIGHT := True\<rparr>"

text \<open>A player falling at 720 pixels per second whose feet touch the top of \<open>half_floor_block\<close>.\<close>

definition fast_falling_player :: Entity where
  "fast_falling_player = (Player_init (0, 7))\<lparr>y_velocity := 720, state := JUMPING\<rparr>"

text \<open>A player one pixel into a floor of two full tiles whose tops are at 100.\<close>

definition landing_player :: Entity where
  "landing_player = (Player_init (10, 71))\<lparr>y_velocity := 60, state := JUMPING\<rparr>"

text \<open>An enemy walking left whose left edge has just entered \<open>spike_block\<close>.\<close>

definition enemy_at_spike :: Entity where
  "enemy_at_spike =
     (Enemy_init PinkGuy_size (124, 93))\<lparr>x_velocity := - 90, direction := LEFT, state := WALKING\<rparr>"


section \<open>Properties\<close>

lemmas rect_defs = rect_left_def rect_top_def rect_right_def rect_bottom_def rect_width_def
  rect_centerx_def rect_centery_def set_rect_left_def set_rect_right_def set_rect_top_def
  set_rect_bottom_def

lemmas sprite_defs = Player_init_def Enemy_init_def PinkGuy_size_def
  block_with_rect_def map_with_def

lemmas physics_defs = PhysicsComponent_update_def full_step_def full_step_fall_def
  remainder_step_fall_def handle_y_collisions_def handle_x_collisions_def
  PhysicsComponent_handle_x_collisions_def EnemyPhysicsComponent_handle_x_collisions_def
  handle_map_boundary_collisions_def spritecollide_def colliderect_def
  is_colliding_from_below_def is_colliding_from_above_def
  is_colliding_from_left_def is_colliding_from_right_def update_y_passes_def
  landing_contact_def trunc_div_def Let_def

subsection \<open>GatewayBlock\<close>

text \<open>
  C1 (as amended). \<open>GatewayBlock.update\<close> posts \<open>SWITCH_LEVEL\<close> exactly when the player's
  rectangle contains the centre of the gateway's box: the gateway's centre lies at or right of
  the player's left edge and strictly left of the player's right edge, and at or below the
  player's top edge and strictly above the player's bottom edge. Otherwise the queue is left as
  it is.
\<close>

theorem GatewayBlock_update_posts_iff_player_contains_center:
  "GatewayBlock_update self player queue =
     (if rect_x (rect player) \<le> rect_x (rect self) + trunc_div (rect_w (rect self)) 2 \<and>
         rect_x (rect self) + trunc_div (rect_w (rect self)) 2
           < rect_x (rect player) + rect_w (rect player) \<and>
         rect_y (rect player) \<le> rect_y (rect self) + trunc_div (rect_h (rect self)) 2 \<and>
         rect_y (rect self) + trunc_div (rect_h (rect self)) 2
           < rect_y (rect player) + rect_h (rect player)
      then queue @ [SWITCH_LEVEL]
      else queue)"
  by (simp add: GatewayBlock_update_def collidepoint_def rect_defs)

text \<open>
  C1 as stated fails: with the player at (100, 107) the gateway's box (100, 88, 25, 37)
  contains the player's centre (110, 122), yet nothing is posted, because the gateway's centre
  (112, 106) is above the player's rectangle.
\<close>

theorem GatewayBlock_update_silent_with_player_center_inside:
  "collidepoint (rect gateway_block)
     (rect_centerx (rect (Player_init (100, 107)))) (rect_centery (rect (Player_init (100, 107)))) \<and>
   GatewayBlock_update gateway_block (Player_init (100, 107)) [] = []"
  by (simp add: GatewayBlock_update_def collidepoint_def rect_defs gateway_block_def
      sprite_defs trunc_div_def)


subsection \<open>SpikeBlock\<close>

lemma SpikeBlock_update_rect:
  "rect (SpikeBlock_update self player) =
     (if colliderect (rect self) (rect player)
      then set_rect_bottom (rect player) (rect_top (rect self))
      else rect player)"
  by (simp add: SpikeBlock_update_def Let_def message_def)

lemma colliderect_after_snap:
  assumes "0 \<le> rect_h p" and "0 \<le> rect_h s"
  shows "\<not> colliderect s (set_rect_bottom p (rect_top s))"
  using assms by (simp add: colliderect_def rect_defs)

lemma rect_bottom_set_rect_bottom: "rect_bottom (set_rect_bottom r v) = v"
  by (simp add: rect_defs)

lemma SpikeBlock_update_messages:
  "messages (SpikeBlock_update self player) =
     (if lateral_edge_inside (rect self) (rect (SpikeBlock_update self player)) \<and>
         rect_top (rect self) = rect_bottom (rect (SpikeBlock_update self player))
      then messages player @ [Enum LAND_ON_SPIKE]
      else messages player)"
  by (simp add: SpikeBlock_update_def Let_def message_def)

text \<open>
  C10. For a player and a spike whose rectangles have no negative height (every rectangle the
  game builds has a positive size), after \<open>SpikeBlock.update\<close> the two rectangles do not
  overlap; whenever they overlapped before, from whatever side, the player's bottom edge is
  the spike's top edge afterwards; and \<open>LAND_ON_SPIKE\<close> is appended to the player's messages
  exactly when, after that, a lateral edge of the player lies strictly inside the spike's
  horizontal extent and the player's bottom is the spike's top.
\<close>

theorem SpikeBlock_update_resolves_overlap:
  assumes "0 \<le> rect_h (rect player)" and "0 \<le> rect_h (rect self)"
  shows "\<not> colliderect (rect self) (rect (SpikeBlock_update self player)) \<and>
    (colliderect (rect self) (rect player) \<longrightarrow>
       rect_bottom (rect (SpikeBlock_update self player)) = rect_top (rect self)) \<and>
    messages (SpikeBlock_update self player) =
       (if lateral_edge_inside (rect self) (rect (SpikeBlock_update self player)) \<and>
           rect_top (rect self) = rect_bottom (rect (SpikeBlock_update self player))
        then messages player @ [Enum LAND_ON_SPIKE]
        else messages player)"
proof (intro conjI)
  show "\<not> colliderect (rect self) (rect (SpikeBlock_update self player))"
    using colliderect_after_snap [OF assms] by (simp add: SpikeBlock_update_rect)
  show "colliderect (rect self) (rect player) \<longrightarrow>
       rect_bottom (rect (SpikeBlock_update self player)) = rect_top (rect self)"
    by (simp add: SpikeBlock_update_rect rect_bottom_set_rect_bottom)
  show "messages (SpikeBlock_update self player) =
       (if lateral_edge_inside (rect self) (rect (SpikeBlock_update self player)) \<and>
           rect_top (rect self) = rect_bottom (rect (SpikeBlock_update self player))
        then messages player @ [Enum LAND_ON_SPIKE]
        else messages player)"
    by (rule SpikeBlock_update_messages)
qed

text \<open>
  A player at (110, 100) overlaps the spike (100, 117, 25, 7) from the side and from above;
  the update lifts the player to (110, 87) and hands over \<open>LAND_ON_SPIKE\<close>.
\<close>

theorem SpikeBlock_update_resolves_overlap_witness:
  "colliderect (rect spike_block) (rect (Player_init (110, 100))) \<and>
   \<not> colliderect (rect spike_block) (rect (SpikeBlock_update spike_block (Player_init (110, 100)))) \<and>
   rect_bottom (rect (SpikeBlock_update spike_block (Player_init (110, 100)))) = 117 \<and>
   messages (SpikeBlock_update spike_block (Player_init (110, 100))) = [Enum LAND_ON_SPIKE]"
proof -
  have h1: "0 \<le> rect_h (rect (Player_init (110, 100)))"
    by (simp add: sprite_defs)
  have h2: "0 \<le> rect_h (rect spike_block)"
    by (simp add: spike_block_def sprite_defs)
  have c: "colliderect (rect spike_block) (rect (Player_init (110, 100)))"
    by (simp add: spike_block_def sprite_defs colliderect_def)
  have l: "lateral_edge_inside (rect spike_block) (set_rect_bottom (rect (Player_init (110, 100))) 117)"
    by (simp add: spike_block_def sprite_defs lateral_edge_inside_def rect_defs)
  have t: "rect_top (rect spike_block) = 117"
    by (simp add: spike_block_def sprite_defs rect_defs)
  have m: "messages (Player_init (110, 100)) = []"
    by (simp add: sprite_defs)
  from SpikeBlock_update_resolves_overlap [OF h1 h2] c l t m show ?thesis
    by (simp add: SpikeBlock_update_rect)
qed

subsection \<open>MovingBlock\<close>

text \<open>
  C7 (as amended). In every tick in which the player's feet exactly touch a MovingBlock's top
  with a lateral edge strictly inside the block, and the player is neither \<open>HANGING\<close> nor
  \<open>CLIMBING\<close>, the block shifts horizontally by its own fixed speed \<open>vel\<close> in the
  direction the player faces (to the left when facing \<open>LEFT\<close>, to the right otherwise),
  whatever the player's horizontal velocity is, and the player's left edge is set to the
  block's left edge. The block also shifts up by \<open>vel\<close> when Up is held, else down by
  \<open>vel\<close> when Down is held, and the player's bottom stays on the block's top. The player's
  velocity and direction are not changed.
\<close>

theorem MovingBlock_update_carries_player:
  assumes "rect_top (rect self) = rect_bottom (rect player)"
    and "lateral_edge_inside (rect self) (rect player)"
    and "state player \<noteq> HANGING" and "state player \<noteq> CLIMBING"
  shows "rect_x (rect (fst (MovingBlock_update is_pressed self player))) =
           rect_x (rect self) + (if direction player = LEFT then - vel self else vel self) \<and>
         rect_x (rect (snd (MovingBlock_update is_pressed self player))) =
           rect_x (rect (fst (MovingBlock_update is_pressed self player))) \<and>
         rect_y (rect (fst (MovingBlock_update is_pressed self player))) =
           rect_y (rect self) +
             (if K_UP is_pressed then - vel self else if K_DOWN is_pressed then vel self else 0) \<and>
         rect_bottom (rect (snd (MovingBlock_update is_pressed self player))) =
           rect_top (rect (fst (MovingBlock_update is_pressed self player))) \<and>
         x_velocity (snd (MovingBlock_update is_pressed self player)) = x_velocity player \<and>
         y_velocity (snd (MovingBlock_update is_pressed self player)) = y_velocity player \<and>
         direction (snd (MovingBlock_update is_pressed self player)) = direction player"
proof -
  have "direction player = LEFT \<or> direction player = RIGHT"
    by (cases "direction player") simp_all
  then show ?thesis
  proof
    assume "direction player = LEFT"
    with assms show ?thesis
      by (simp add: MovingBlock_update_def Let_def rect_defs)
  next
    assume "direction player = RIGHT"
    with assms show ?thesis
      by (simp add: MovingBlock_update_def Let_def rect_defs)
  qed
qed

text \<open>
  A player standing at (10, 70) on the block (0, 100, 25, 25), facing right, with Up held:
  the block moves to (1, 99) and the player's left edge to 1, its bottom to 99.
\<close>

theorem MovingBlock_update_carries_player_witness:
  "rect_x (rect (fst (MovingBlock_update keys_up moving_block (Player_init (10, 70))))) = 1 \<and>
   rect_x (rect (snd (MovingBlock_update keys_up moving_block (Player_init (10, 70))))) = 1 \<and>
   rect_y (rect (fst (MovingBlock_update keys_up moving_block (Player_init (10, 70))))) = 99 \<and>
   rect_bottom (rect (snd (MovingBlock_update keys_up moving_block (Player_init (10, 70))))) = 99"
proof -
  have h1: "rect_top (rect moving_block) = rect_bottom (rect (Player_init (10, 70)))"
    by (simp add: moving_block_def sprite_defs rect_defs)
  have h2: "lateral_edge_inside (rect moving_block) (rect (Player_init (10, 70)))"
    by (simp add: moving_block_def sprite_defs rect_defs lateral_edge_inside_def)
  have h3: "state (Player_init (10, 70)) \<noteq> HANGING"
    by (simp add: sprite_defs)
  have h4: "state (Player_init (10, 70)) \<noteq> CLIMBING"
    by (simp add: sprite_defs)
  have d: "direction (Player_init (10, 70)) = RIGHT"
    by (simp add: sprite_defs)
  have b: "rect_x (rect moving_block) = 0 \<and> rect_y (rect moving_block) = 100 \<and> vel moving_block = 1"
    by (simp add: moving_block_def)
  have k: "K_UP keys_up"
    by (simp add: keys_up_def keys_none_def)
  from MovingBlock_update_carries_player [OF h1 h2 h3 h4, of keys_up] d b k
  show ?thesis
    by (simp add: rect_defs)
qed

text \<open>
  C7 as stated fails: the block does not move as the player does. A player standing still
  (horizontal velocity 0) at (10, 70) on the block (0, 100, 25, 25), facing right, with no key
  held: the block moves one pixel to the right, and the player is moved nine pixels to the
  left, onto the block's left edge.
\<close>

theorem MovingBlock_update_moves_unlike_player:
  "x_velocity (Player_init (10, 70)) = 0 \<and>
   rect_x (rect moving_block) = 0 \<and>
   rect_x (rect (fst (MovingBlock_update keys_none moving_block (Player_init (10, 70))))) = 1 \<and>
   rect_x (rect (Player_init (10, 70))) = 10 \<and>
   rect_x (rect (snd (MovingBlock_update keys_none moving_block (Player_init (10, 70))))) = 1"
  by (simp add: MovingBlock_update_def moving_block_def sprite_defs keys_none_def Let_def
      rect_defs lateral_edge_inside_def)

subsection \<open>Control component\<close>

text \<open>
  C8. When both Left and Right are held, the handlers of the \<open>IDLE\<close> and of the
  \<open>WALKING\<close> state, and a tick of the control component started in either state, leave
  the entity facing \<open>RIGHT\<close> with horizontal velocity +180: the statement for Right runs
  after the statement for Left and overwrites it.
\<close>

theorem left_and_right_held_gives_RIGHT:
  assumes "K_LEFT is_pressed" and "K_RIGHT is_pressed"
  shows "direction (handle_idle_entity is_pressed entity) = RIGHT \<and>
         x_velocity (handle_idle_entity is_pressed entity) = 180 \<and>
         direction (handle_walking_entity is_pressed entity) = RIGHT \<and>
         x_velocity (handle_walking_entity is_pressed entity) = 180 \<and>
         (state entity = IDLE \<or> state entity = WALKING \<longrightarrow>
            direction (UserControlComponent_update is_pressed entity) = RIGHT \<and>
            x_velocity (UserControlComponent_update is_pressed entity) = 180)"
  using assms
  by (auto simp add: UserControlComponent_update_def handle_idle_entity_def
      handle_walking_entity_def handle_climbing_entity_def message_def Let_def
      WALK_RIGHT_VELOCITY_def)

theorem left_and_right_held_gives_RIGHT_witness:
  "direction (UserControlComponent_update keys_left_right (Player_init (10, 10))) = RIGHT \<and>
   x_velocity (UserControlComponent_update keys_left_right (Player_init (10, 10))) = 180 \<and>
   state (UserControlComponent_update keys_left_right (Player_init (10, 10))) = WALKING"
proof -
  have h1: "K_LEFT keys_left_right" and h2: "K_RIGHT keys_left_right"
    by (simp_all add: keys_left_right_def keys_none_def)
  have h3: "state (Player_init (10, 10)) = IDLE"
    by (simp add: sprite_defs)
  have s: "state (UserControlComponent_update keys_left_right (Player_init (10, 10))) = WALKING"
    by (simp add: UserControlComponent_update_def handle_idle_entity_def Let_def
        keys_left_right_def keys_none_def sprite_defs)
  from left_and_right_held_gives_RIGHT [OF h1 h2, of "Player_init (10, 10)"] h3 s
  show ?thesis by simp
qed

subsection \<open>Texture lookup\<close>

lemma code_to_texture_dictionary_keys_distinct:
  "distinct (map fst code_to_texture_dictionary)"
  by (simp add: code_to_texture_dictionary_def)

lemma every_name_has_a_texture:
  "list_all (\<lambda>(code, name). map_of textures name \<noteq> None) code_to_texture_dictionary"
  unfolding code_to_texture_dictionary_def textures_def
  by code_simp

text \<open>
  C9. For every code that is not a key of the code-to-terrain-type table,
  \<open>get_texture_from_code\<close> raises \<open>KeyError\<close> for that code; for every entry of the table
  it returns the \<open>TerrainType\<close> that the textures dictionary holds under the entry's name.
\<close>

theorem get_texture_from_code_raises_or_returns_entry:
  "(code \<notin> fst ` set code_to_texture_dictionary \<longrightarrow>
      get_texture_from_code code = Inl (KeyError code)) \<and>
   (\<forall>name. (code, name) \<in> set code_to_texture_dictionary \<longrightarrow>
      (\<exists>terrain_type. (name, terrain_type) \<in> set textures \<and>
         get_texture_from_code code = Inr terrain_type))"
proof (intro conjI impI allI)
  assume "code \<notin> fst ` set code_to_texture_dictionary"
  then have "map_of code_to_texture_dictionary code = None"
    by (simp add: map_of_eq_None_iff)
  then show "get_texture_from_code code = Inl (KeyError code)"
    by (simp add: get_texture_from_code_def)
next
  fix name
  assume entry: "(code, name) \<in> set code_to_texture_dictionary"
  then have found: "map_of code_to_texture_dictionary code = Some name"
    using code_to_texture_dictionary_keys_distinct by simp
  from entry every_name_has_a_texture have "map_of textures name \<noteq> None"
    by (auto simp add: list_all_iff)
  then obtain tt where tt: "map_of textures name = Some tt"
    by blast
  then have "(name, tt) \<in> set textures"
    by (rule map_of_SomeD)
  moreover have "get_texture_from_code code = Inr tt"
    using found tt by (simp add: get_texture_from_code_def)
  ultimately show "\<exists>terrain_type. (name, terrain_type) \<in> set textures \<and>
      get_texture_from_code code = Inr terrain_type"
    by blast
qed

theorem get_texture_from_code_raises_or_returns_entry_witness:
  "get_texture_from_code ''zz'' = Inl (KeyError ''zz'') \<and>
   (\<exists>terrain_type. (''SPIKES_UPRIGHT'', terrain_type) \<in> set textures \<and>
      get_texture_from_code ''SP'' = Inr terrain_type)"
proof -
  have a: "''zz'' \<notin> fst ` set code_to_texture_dictionary"
    by (simp add: code_to_texture_dictionary_def)
  have b: "(''SP'', ''SPIKES_UPRIGHT'') \<in> set code_to_texture_dictionary"
    by (simp add: code_to_texture_dictionary_def)
  from a get_texture_from_code_raises_or_returns_entry [of "''zz''"]
  have "get_texture_from_code ''zz'' = Inl (KeyError ''zz'')"
    by blast
  moreover from b get_texture_from_code_raises_or_returns_entry [of "''SP''"]
  have "\<exists>terrain_type. (''SPIKES_UPRIGHT'', terrain_type) \<in> set textures \<and>
      get_texture_from_code ''SP'' = Inr terrain_type"
    by blast
  ultimately show ?thesis
    by blast
qed


subsection \<open>Map boundaries\<close>

text \<open>
  C6. For every entity box that is no wider than the map (every entity of the game is a few
  tiles wide at most, a map many tiles), boundary resolution establishes: if the entity's
  left edge was < 0, its left edge becomes exactly 0; if its right edge was > the map width,
  its right edge becomes exactly the map width; and if its top was < 0, its top becomes
  exactly 0.
\<close>

theorem handle_map_boundary_collisions_clamps:
  assumes "rect_w (rect entity) \<le> rect_width (rect game_map)"
  shows "(rect_left (rect entity) < 0 \<longrightarrow>
            rect_left (rect (handle_map_boundary_collisions entity game_map)) = 0) \<and>
         (rect_right (rect entity) > rect_width (rect game_map) \<longrightarrow>
            rect_right (rect (handle_map_boundary_collisions entity game_map)) =
              rect_width (rect game_map)) \<and>
         (rect_top (rect entity) < 0 \<longrightarrow>
            rect_top (rect (handle_map_boundary_collisions entity game_map)) = 0)"
proof (intro conjI impI)
  assume "rect_left (rect entity) < 0"
  then show "rect_left (rect (handle_map_boundary_collisions entity game_map)) = 0"
    by (simp add: handle_map_boundary_collisions_def Let_def rect_defs)
next
  assume "rect_right (rect entity) > rect_width (rect game_map)"
  with assms have "\<not> rect_left (rect entity) < 0"
    by (simp add: rect_defs)
  with \<open>rect_right (rect entity) > rect_width (rect game_map)\<close>
  show "rect_right (rect (handle_map_boundary_collisions entity game_map)) =
      rect_width (rect game_map)"
    by (simp add: handle_map_boundary_collisions_def Let_def rect_defs)
next
  assume "rect_top (rect entity) < 0"
  then show "rect_top (rect (handle_map_boundary_collisions entity game_map)) = 0"
    by (simp add: handle_map_boundary_collisions_def Let_def rect_defs)
qed

text \<open>
  On a map of width 800, a player at (-5, -3) is moved to the left and top edges of the map,
  and a player at (790, 10) is moved back so that its right edge is 800.
\<close>

theorem handle_map_boundary_collisions_clamps_witness:
  "rect_left (rect (handle_map_boundary_collisions (Player_init (- 5, - 3)) (map_with 800 []))) = 0 \<and>
   rect_right (rect (handle_map_boundary_collisions (Player_init (790, 10)) (map_with 800 []))) = 800 \<and>
   rect_top (rect (handle_map_boundary_collisions (Player_init (- 5, - 3)) (map_with 800 []))) = 0"
proof -
  have n1: "rect_w (rect (Player_init (- 5, - 3))) \<le> rect_width (rect (map_with 800 []))"
    and n2: "rect_w (rect (Player_init (790, 10))) \<le> rect_width (rect (map_with 800 []))"
    by (simp_all add: sprite_defs rect_defs)
  have h1: "rect_left (rect (Player_init (- 5, - 3))) < 0"
    and h2: "rect_top (rect (Player_init (- 5, - 3))) < 0"
    by (simp_all add: sprite_defs rect_defs)
  have h3: "rect_right (rect (Player_init (790, 10))) > rect_width (rect (map_with 800 []))"
    by (simp add: sprite_defs rect_defs)
  have w: "rect_width (rect (map_with 800 [])) = 800"
    by (simp add: sprite_defs rect_defs)
  from handle_map_boundary_collisions_clamps [OF n1] handle_map_boundary_collisions_clamps [OF n2]
    h1 h2 h3 w
  show ?thesis by simp
qed

subsection \<open>Horizontal collisions and hazards\<close>

lemma PhysicsComponent_handle_x_loop_skips_spikes:
  "PhysicsComponent_handle_x_loop entity (filter (\<lambda>s. \<not> is_spike s) cs) =
   PhysicsComponent_handle_x_loop entity cs"
  by (induction cs arbitrary: entity) (simp_all add: Let_def)

lemma spritecollide_filter:
  "filter P (spritecollide r cs) = spritecollide r (filter P cs)"
  by (induction cs) (simp_all add: spritecollide_def)

text \<open>
  The player's variant never moves the entity because of a hazardous block: the result is
  the same on the map without its hazardous blocks.
\<close>

lemma PhysicsComponent_handle_x_collisions_ignores_spikes:
  "PhysicsComponent_handle_x_collisions entity game_map =
   PhysicsComponent_handle_x_collisions entity
     (game_map\<lparr>collideable_terrain_group :=
        filter (\<lambda>s. \<not> is_spike s) (collideable_terrain_group game_map)\<rparr>)"
  by (simp add: PhysicsComponent_handle_x_collisions_def spritecollide_filter [symmetric]
      PhysicsComponent_handle_x_loop_skips_spikes)

text \<open>
  C5 fails for the enemy's variant, which has no test of \<open>is_spike\<close>. An enemy of 32 by 32
  pixels at (124, 93), walking left at 90 pixels per second, overlaps the spike
  (100, 117, 25, 7) with its left edge strictly inside it: the enemy's left edge is set to the
  spike's right edge, 125, and the enemy is turned around.
\<close>

theorem EnemyPhysicsComponent_handle_x_collisions_blocked_by_spike:
  "is_spike spike_block \<and>
   rect_x (rect enemy_at_spike) = 124 \<and>
   rect_x (rect (EnemyPhysicsComponent_handle_x_collisions enemy_at_spike
      (map_with 800 [spike_block]))) = 125 \<and>
   direction (EnemyPhysicsComponent_handle_x_collisions enemy_at_spike
      (map_with 800 [spike_block])) = RIGHT \<and>
   x_velocity (EnemyPhysicsComponent_handle_x_collisions enemy_at_spike
      (map_with 800 [spike_block])) = 90 \<and>
   PhysicsComponent_handle_x_collisions enemy_at_spike (map_with 800 [spike_block]) =
      enemy_at_spike"
  by (simp add: EnemyPhysicsComponent_handle_x_collisions_def
      PhysicsComponent_handle_x_collisions_def spritecollide_def colliderect_def
      enemy_at_spike_def spike_block_def sprite_defs Let_def
      is_colliding_from_right_def is_colliding_from_left_def rect_defs)

subsection \<open>Vertical collisions: landing\<close>

lemma handle_y_collisions_loop_resting:
  assumes "\<forall>b \<in> set cs. rect_top (rect b) = T"
    and "rect_bottom (rect entity) = T" and "0 \<le> rect_h (rect entity)"
  shows "handle_y_collisions_loop entity isJumping cs = (entity, isJumping)"
  using assms
proof (induction cs)
  case Nil
  then show ?case by simp
next
  case (Cons c cs)
  then have "\<not> is_colliding_from_below entity c" and "\<not> is_colliding_from_above entity c"
    by (simp_all add: is_colliding_from_below_def is_colliding_from_above_def rect_defs)
  with Cons show ?case by simp
qed

lemma handle_y_collisions_loop_landing:
  assumes "cs \<noteq> []"
    and "\<forall>b \<in> set cs. rect_top (rect b) = T \<and> rect_bottom (rect entity) < rect_bottom (rect b)"
    and "rect_top (rect entity) < T" and "T < rect_bottom (rect entity)"
  shows "handle_y_collisions_loop entity isJumping cs =
           (entity\<lparr>rect := set_rect_bottom (rect entity) T, y_velocity := 0,
                    state := (if state entity = JUMPING then IDLE else state entity)\<rparr>, False)"
proof (cases cs)
  case Nil
  with assms(1) show ?thesis by simp
next
  case (Cons c rest)
  with assms have c: "rect_top (rect c) = T" "rect_bottom (rect entity) < rect_bottom (rect c)"
    and r: "\<forall>b \<in> set rest. rect_top (rect b) = T"
    by simp_all
  from c assms(3) have not_below: "\<not> is_colliding_from_below entity c"
    by (simp add: is_colliding_from_below_def)
  from c assms(4) have above: "is_colliding_from_above entity c"
    by (simp add: is_colliding_from_above_def)
  let ?e3 = "(if state entity = JUMPING then entity\<lparr>state := IDLE\<rparr> else entity)
               \<lparr>rect := set_rect_bottom (rect entity) T, y_velocity := 0\<rparr>"
  from assms(3) assms(4) have h: "0 \<le> rect_h (rect ?e3)"
    by (simp add: rect_defs)
  have b: "rect_bottom (rect ?e3) = T"
    by (simp add: rect_defs)
  have "handle_y_collisions_loop entity isJumping cs = handle_y_collisions_loop ?e3 False rest"
    using Cons not_below above c by (simp add: Let_def)
  also have "\<dots> = (?e3, False)"
    using r b h by (rule handle_y_collisions_loop_resting)
  finally show ?thesis by simp
qed

text \<open>
  C3 (as amended). For every entity and every pass of vertical collision resolution in which
  the entity overlaps at least one collideable block, and every block it overlaps has its top
  edge at one height \<open>T\<close> strictly between the entity's top and bottom and its bottom edge
  strictly below the entity's bottom, the pass ends with the entity's vertical velocity equal
  to 0 and its bottom equal to \<open>T\<close>, and if its state was \<open>JUMPING\<close> it is \<open>IDLE\<close>
  afterwards (any other state is kept).
\<close>

theorem handle_y_collisions_lands_on_top:
  assumes "spritecollide (rect entity) (collideable_terrain_group game_map) \<noteq> []"
    and "\<forall>b \<in> set (spritecollide (rect entity) (collideable_terrain_group game_map)).
           rect_top (rect b) = T \<and> rect_bottom (rect entity) < rect_bottom (rect b)"
    and "rect_top (rect entity) < T" and "T < rect_bottom (rect entity)"
  shows "y_velocity (handle_y_collisions entity game_map) = 0 \<and>
         rect_bottom (rect (handle_y_collisions entity game_map)) = T \<and>
         state (handle_y_collisions entity game_map) =
           (if state entity = JUMPING then IDLE else state entity)"
  using handle_y_collisions_loop_landing [OF assms, of True]
  by (simp add: handle_y_collisions_def Let_def rect_defs)

text \<open>
  A jumping player at (10, 71), one pixel into two floor tiles whose tops are at 100, ends
  the pass standing on them.
\<close>

theorem handle_y_collisions_lands_on_top_witness:
  "spritecollide (rect landing_player)
     (collideable_terrain_group
        (map_with 800 [block_with_rect 0 100 25 25 False, block_with_rect 25 100 25 25 False])) =
     [block_with_rect 0 100 25 25 False, block_with_rect 25 100 25 25 False] \<and>
   y_velocity (handle_y_collisions landing_player
     (map_with 800 [block_with_rect 0 100 25 25 False, block_with_rect 25 100 25 25 False])) = 0 \<and>
   rect_bottom (rect (handle_y_collisions landing_player
     (map_with 800 [block_with_rect 0 100 25 25 False, block_with_rect 25 100 25 25 False]))) = 100 \<and>
   state (handle_y_collisions landing_player
     (map_with 800 [block_with_rect 0 100 25 25 False, block_with_rect 25 100 25 25 False])) = IDLE"
proof -
  let ?m = "map_with 800 [block_with_rect 0 100 25 25 False, block_with_rect 25 100 25 25 False]"
  have c: "spritecollide (rect landing_player) (collideable_terrain_group ?m) =
      [block_with_rect 0 100 25 25 False, block_with_rect 25 100 25 25 False]"
    by (simp add: landing_player_def sprite_defs spritecollide_def colliderect_def)
  have h1: "spritecollide (rect landing_player) (collideable_terrain_group ?m) \<noteq> []"
    by (simp add: c)
  have h2: "\<forall>b \<in> set (spritecollide (rect landing_player) (collideable_terrain_group ?m)).
      rect_top (rect b) = 100 \<and> rect_bottom (rect landing_player) < rect_bottom (rect b)"
    by (simp add: c) (simp add: landing_player_def sprite_defs rect_defs)
  have h3: "rect_top (rect landing_player) < 100" and h4: "100 < rect_bottom (rect landing_player)"
    by (simp_all add: landing_player_def sprite_defs rect_defs)
  have s: "state landing_player = JUMPING"
    by (simp add: landing_player_def)
  from handle_y_collisions_lands_on_top [OF h1 h2 h3 h4] c s show ?thesis
    by simp
qed

text \<open>
  C3 as stated fails. In a frame of one full step, a player falling at 720 pixels per second
  with its feet on the top (37) of a block 13 pixels thick gains 60 and moves down 13 pixels.
  After the move the block's top edge is strictly between the player's top (20) and bottom
  (50) and the two overlap, but the player's bottom is not strictly above the block's bottom
  (50): no contact is found, and the tick ends with vertical velocity 780, the bottom at 50
  and the state \<open>JUMPING\<close>.
\<close>

theorem PhysicsComponent_update_falls_past_block_top:
  "full_step_fall frame_of_one_step fast_falling_player =
     (Player_init (0, 20))\<lparr>y_velocity := 780, state := JUMPING\<rparr> \<and>
   rect_top (rect ((Player_init (0, 20))\<lparr>y_velocity := 780, state := JUMPING\<rparr>))
     < rect_top (rect half_floor_block) \<and>
   rect_top (rect half_floor_block)
     < rect_bottom (rect ((Player_init (0, 20))\<lparr>y_velocity := 780, state := JUMPING\<rparr>)) \<and>
   colliderect (rect ((Player_init (0, 20))\<lparr>y_velocity := 780, state := JUMPING\<rparr>))
     (rect half_floor_block) \<and>
   y_velocity (PhysicsComponent_update PhysicsComponent frame_of_one_step fast_falling_player
     (map_with 800 [half_floor_block])) = 780 \<and>
   rect_bottom (rect (PhysicsComponent_update PhysicsComponent frame_of_one_step
     fast_falling_player (map_with 800 [half_floor_block]))) = 50 \<and>
   rect_top (rect half_floor_block) = 37 \<and>
   state (PhysicsComponent_update PhysicsComponent frame_of_one_step fast_falling_player
     (map_with 800 [half_floor_block])) = JUMPING"
  by (simp add: physics_defs fast_falling_player_def half_floor_block_def sprite_defs
      frame_of_one_step_def rect_defs)


subsection \<open>Vertical collisions: no ground\<close>

text \<open>Within \<open>update\<close> only \<open>handle_y_collisions\<close> changes the entity's state.\<close>

lemma state_PhysicsComponent_handle_x_loop:
  "state (PhysicsComponent_handle_x_loop entity cs) = state entity"
  by (induction cs arbitrary: entity) (simp_all add: Let_def)

lemma state_EnemyPhysicsComponent_handle_x_loop:
  "state (EnemyPhysicsComponent_handle_x_loop entity cs) = state entity"
  by (induction cs arbitrary: entity) (simp_all add: Let_def)

lemma state_handle_x_collisions:
  "state (handle_x_collisions self entity game_map) = state entity"
  by (cases self)
     (simp_all add: handle_x_collisions_def PhysicsComponent_handle_x_collisions_def
        EnemyPhysicsComponent_handle_x_collisions_def state_PhysicsComponent_handle_x_loop
        state_EnemyPhysicsComponent_handle_x_loop)

lemma state_handle_map_boundary_collisions:
  "state (handle_map_boundary_collisions entity game_map) = state entity"
  by (simp add: handle_map_boundary_collisions_def Let_def)

lemma state_remainder_step_fall: "state (remainder_step_fall t entity) = state entity"
  by (simp add: remainder_step_fall_def Let_def)

text \<open>
  A loop that ends with \<open>isJumping\<close> still set has found no landing contact and has left the
  state alone.
\<close>

lemma handle_y_collisions_loop_without_landing:
  "snd (handle_y_collisions_loop entity isJumping cs) \<Longrightarrow>
     isJumping \<and> state (fst (handle_y_collisions_loop entity isJumping cs)) = state entity"
proof (induction cs arbitrary: entity isJumping)
  case Nil
  then show ?case by simp
next
  case (Cons c cs)
  show ?case
  proof (cases "is_colliding_from_below entity c")
    case True
    with Cons.prems Cons.IH show ?thesis
      by (auto simp add: Let_def split: if_splits)
  next
    case False
    with Cons.prems Cons.IH show ?thesis
      by (auto simp add: Let_def split: if_splits)
  qed
qed

lemma state_handle_y_collisions_without_landing:
  assumes "\<not> landing_contact entity game_map"
  shows "state (handle_y_collisions entity game_map) =
           (if state entity = CLIMBING \<or> state entity = HANGING then state entity else JUMPING)"
proof -
  let ?r = "handle_y_collisions_loop entity True
              (spritecollide (rect entity) (collideable_terrain_group game_map))"
  from assms have flag: "snd ?r"
    by (simp add: landing_contact_def)
  then have "state (fst ?r) = state entity"
    using handle_y_collisions_loop_without_landing by blast
  with flag show ?thesis
    by (simp add: handle_y_collisions_def Let_def split_beta)
qed

lemma state_full_step:
  "state (full_step self t game_map entity) =
     state (handle_y_collisions (full_step_fall t entity) game_map)"
  by (simp add: full_step_def Let_def state_handle_x_collisions)

text \<open>The state at the end is the state that the last vertical pass has left.\<close>

lemma state_full_steps_last_pass:
  "0 < n \<Longrightarrow> state (full_steps self t game_map n entity) =
     state (handle_y_collisions (last (full_steps_y_passes self t game_map n entity)) game_map)"
proof (induction n arbitrary: entity)
  case 0
  then show ?case by simp
next
  case (Suc n)
  show ?case
  proof (cases n)
    case 0
    then show ?thesis by (simp add: state_full_step)
  next
    case (Suc k)
    then have "0 < n" by simp
    from Suc.IH [OF this, of "full_step self t game_map entity"] Suc show ?thesis
      by simp
  qed
qed

lemma state_PhysicsComponent_update_last_pass:
  assumes "update_y_passes self t entity game_map \<noteq> []"
  shows "state (PhysicsComponent_update self t entity game_map) =
     state (handle_y_collisions (last (update_y_passes self t entity game_map)) game_map)"
proof (cases "remainder_move t (y_velocity (remainder_step_fall t
                 (full_steps self t game_map (num_full_steps t) entity))) \<noteq> 0")
  case True
  then show ?thesis
    by (simp add: PhysicsComponent_update_def update_y_passes_def Let_def
        state_handle_map_boundary_collisions state_handle_x_collisions)
next
  case False
  with assms have n: "0 < num_full_steps t"
    by (cases "num_full_steps t") (simp_all add: update_y_passes_def Let_def)
  from False show ?thesis
    by (simp add: PhysicsComponent_update_def update_y_passes_def Let_def
        state_handle_map_boundary_collisions state_handle_x_collisions
        state_remainder_step_fall state_full_steps_last_pass [OF n])
qed

text \<open>
  C2 (as amended). For every entity, every component and every frame, whatever the elapsed
  time: if the tick runs vertical collision resolution at least once (it has a full step, or
  its remainder step moves the entity vertically), no pass of it meets a landing contact, and
  the entity's state at the end of the tick is not \<open>HANGING\<close> or \<open>CLIMBING\<close>, then its state
  at the end of the tick is \<open>JUMPING\<close>.
\<close>

theorem PhysicsComponent_update_no_landing_gives_JUMPING:
  assumes "update_y_passes self t entity game_map \<noteq> []"
    and "\<forall>p \<in> set (update_y_passes self t entity game_map). \<not> landing_contact p game_map"
    and "state (PhysicsComponent_update self t entity game_map) \<noteq> HANGING"
    and "state (PhysicsComponent_update self t entity game_map) \<noteq> CLIMBING"
  shows "state (PhysicsComponent_update self t entity game_map) = JUMPING"
proof -
  let ?p = "last (update_y_passes self t entity game_map)"
  from assms(1) have "?p \<in> set (update_y_passes self t entity game_map)"
    by simp
  with assms(2) have "\<not> landing_contact ?p game_map"
    by blast
  then have "state (handle_y_collisions ?p game_map) =
           (if state ?p = CLIMBING \<or> state ?p = HANGING then state ?p else JUMPING)"
    by (rule state_handle_y_collisions_without_landing)
  with state_PhysicsComponent_update_last_pass [OF assms(1)] assms(3) assms(4) show ?thesis
    by (simp split: if_splits)
qed

text \<open>
  An idle player in mid-air at (10, 10), the only block far below, in a frame of one full
  step: the step's vertical pass finds nothing, and the player is \<open>JUMPING\<close> at the end.
\<close>

theorem PhysicsComponent_update_no_landing_gives_JUMPING_witness:
  "update_y_passes PhysicsComponent frame_of_one_step (Player_init (10, 10))
     (map_with 800 [block_with_rect 0 500 25 25 False]) =
     [(Player_init (10, 11))\<lparr>y_velocity := 60\<rparr>] \<and>
   \<not> landing_contact ((Player_init (10, 11))\<lparr>y_velocity := 60\<rparr>)
     (map_with 800 [block_with_rect 0 500 25 25 False]) \<and>
   state (PhysicsComponent_update PhysicsComponent frame_of_one_step (Player_init (10, 10))
     (map_with 800 [block_with_rect 0 500 25 25 False])) = JUMPING"
proof -
  let ?m = "map_with 800 [block_with_rect 0 500 25 25 False]"
  let ?e = "Player_init (10, 10)"
  have passes: "update_y_passes PhysicsComponent frame_of_one_step ?e ?m =
      [(Player_init (10, 11))\<lparr>y_velocity := 60\<rparr>]"
    by (simp add: physics_defs sprite_defs frame_of_one_step_def)
  have none: "\<not> landing_contact ((Player_init (10, 11))\<lparr>y_velocity := 60\<rparr>) ?m"
    by (simp add: physics_defs sprite_defs)
  have h1: "update_y_passes PhysicsComponent frame_of_one_step ?e ?m \<noteq> []"
    by (simp add: passes)
  have h2: "\<forall>p \<in> set (update_y_passes PhysicsComponent frame_of_one_step ?e ?m).
      \<not> landing_contact p ?m"
    using none by (simp add: passes)
  have h3: "state (PhysicsComponent_update PhysicsComponent frame_of_one_step ?e ?m) \<noteq> HANGING"
    and h4: "state (PhysicsComponent_update PhysicsComponent frame_of_one_step ?e ?m) \<noteq> CLIMBING"
    by (simp_all add: physics_defs sprite_defs frame_of_one_step_def rect_defs)
  from PhysicsComponent_update_no_landing_gives_JUMPING [OF h1 h2 h3 h4] passes none
  show ?thesis by simp
qed

text \<open>
  C2 as stated fails for a tick that runs no vertical pass. With \<open>delta_time = 0\<close> an idle
  player in mid-air on a map without blocks meets no landing contact, is not \<open>HANGING\<close> or
  \<open>CLIMBING\<close>, and is still \<open>IDLE\<close> at the end of the tick.
\<close>

theorem PhysicsComponent_update_without_pass_stays_IDLE:
  "update_y_passes PhysicsComponent frame_of_zero_seconds (Player_init (10, 10))
     (map_with 800 []) = [] \<and>
   state (PhysicsComponent_update PhysicsComponent frame_of_zero_seconds (Player_init (10, 10))
     (map_with 800 [])) = IDLE"
  by (simp add: physics_defs sprite_defs frame_of_zero_seconds_def rect_defs)

end
